theory Spec2Isabelle
  imports Main "HOL-Library.AList" "HOL-Library.Stream"
begin

section \<open>The xDS client of the traffic plugin (plugin/traffic/xds/client.go)\<close>

text \<open>
  The client keeps a bidirectional stream to an ADS management server. It reads
  discovery responses in a loop, records the clusters it is told about in a map guarded
  by a mutex, and answers on the same stream. The model is sequential: the mutex field is
  left out, the map is a value that each operation returns updated, and the stream and the
  logger are explicit state.
\<close>

subsection \<open>Messages\<close>

text \<open>
  The protobuf messages come from go-control-plane. Only the fields that client.go
  reads or writes are kept. A Go \<^verbatim>\<open>error\<close> is a value carrying its text.
\<close>

datatype error = Error string

definition cdsURL :: string where
  "cdsURL = ''type.googleapis.com/envoy.api.v2.Cluster''"

definition edsURL :: string where
  "edsURL = ''type.googleapis.com/envoy.api.v2.ClusterLoadAssignment''"

record corepb_Node =
  NodeId :: string

record xdspb_Cluster =
  GetName :: string

record xdspb_ClusterLoadAssignment =
  ClusterName :: string
  Endpoints :: "string list"

text \<open>A packed resource (\<^verbatim>\<open>any.Any\<close>): the type URL and the serialised bytes.\<close>

datatype any = Any string string

text \<open>What a packed resource decodes to, as far as the type assertion in Receive can tell.\<close>

datatype message =
    ClusterMessage xdspb_Cluster
  | ClusterLoadAssignmentMessage xdspb_ClusterLoadAssignment
  | OtherMessage

text \<open>
  \<^verbatim>\<open>ptypes.UnmarshalAny\<close> belongs to the protobuf library; every function that decodes
  takes it as the parameter \<open>unmarshalAny\<close>, which yields the decoded message or an error.
\<close>

type_synonym unmarshal = "any \<Rightarrow> error + message"

record xdspb_DiscoveryRequest =
  Node :: corepb_Node
  TypeUrl :: string
  ResourceNames :: "string list"
  VersionInfo :: string
  ResponseNonce :: string

record xdspb_DiscoveryResponse =
  GetVersionInfo :: string
  GetResources :: "any list"
  GetTypeUrl :: string
  GetNonce :: string

subsection \<open>The assignment store\<close>

text \<open>
  \<^verbatim>\<open>cla map[string]*xdspb.ClusterLoadAssignment\<close>: the map is an association list read
  with \<^const>\<open>map_of\<close> and written with \<^const>\<open>AList.update\<close>; a stored value is a
  pointer, \<open>None\<close> being nil. The field itself is \<open>None\<close> for the nil map, which Go
  lets one read but not write.
\<close>

record assignment =
  cla :: "(string \<times> xdspb_ClusterLoadAssignment option) list option"
  version :: int

datatype panic = AssignmentToEntryInNilMap

definition SetClusterLoadAssignment ::
  "assignment \<Rightarrow> string \<Rightarrow> xdspb_ClusterLoadAssignment option \<Rightarrow> panic + assignment" where
  "SetClusterLoadAssignment a cluster c =
     (case cla a of
        None \<Rightarrow> Inl AssignmentToEntryInNilMap
      | Some m \<Rightarrow>
          (case map_of m cluster of
             None \<Rightarrow> Inr (a\<lparr>cla := Some (AList.update cluster c m)\<rparr>)
           | Some _ \<Rightarrow>
               if c = None then Inr a
               else Inr (a\<lparr>cla := Some (AList.update cluster c m)\<rparr>)))"

text \<open>The getter of the source ignores the store and returns nil.\<close>

definition ClusterLoadAssignment ::
  "assignment \<Rightarrow> string \<Rightarrow> xdspb_ClusterLoadAssignment option" where
  "ClusterLoadAssignment a cluster = None"

text \<open>
  Clusters lists every key of the map once. Go leaves the order of a map iteration open;
  the model lists the keys in the order of the association list, and the theorems below
  speak of the set of the list only.
\<close>

definition Clusters :: "assignment \<Rightarrow> string list" where
  "Clusters a = (case cla a of None \<Rightarrow> [] | Some m \<Rightarrow> remdups (map fst m))"

subsection \<open>The client and its stream\<close>

datatype ClientConn = ClientConn string

record Client =
  cc :: ClientConn
  assignments :: assignment
  node :: corepb_Node

text \<open>
  \<^verbatim>\<open>grpc.Dial\<close> is the parameter \<open>dial\<close>. New does not use its second argument: the node
  of the client is the constant \<^verbatim>\<open>"test-id"\<close>.
\<close>

definition New :: "(string \<Rightarrow> error + ClientConn) \<Rightarrow> string \<Rightarrow> string \<Rightarrow> error + Client" where
  "New dial addr node_arg =
     (case dial addr of
        Inl err \<Rightarrow> Inl err
      | Inr conn \<Rightarrow>
          Inr \<lparr>cc = conn,
               assignments = \<lparr>cla = Some [], version = 0\<rparr>,
               node = \<lparr>NodeId = ''test-id''\<rparr>\<rparr>)"

text \<open>
  The stream is the transport's: \<open>incoming\<close> is what the successive calls of
  \<^verbatim>\<open>Recv\<close> return, \<open>send_results\<close> what the successive calls of \<^verbatim>\<open>Send\<close> return
  (\<open>None\<close> for a nil error), and \<open>sent\<close> the requests handed to \<^verbatim>\<open>Send\<close> so far,
  oldest first.
\<close>

record adsStream =
  incoming :: "(error + xdspb_DiscoveryResponse) stream"
  send_results :: "error option stream"
  sent :: "xdspb_DiscoveryRequest list"

definition Recv :: "adsStream \<Rightarrow> (error + xdspb_DiscoveryResponse) \<times> adsStream" where
  "Recv s = (shd (incoming s), s\<lparr>incoming := stl (incoming s)\<rparr>)"

definition Send :: "adsStream \<Rightarrow> xdspb_DiscoveryRequest \<Rightarrow> error option \<times> adsStream" where
  "Send s req =
     (shd (send_results s),
      s\<lparr>send_results := stl (send_results s), sent := sent s @ [req]\<rparr>)"

definition ClusterDiscovery ::
  "Client \<Rightarrow> adsStream \<Rightarrow> string \<Rightarrow> string \<Rightarrow> string list \<Rightarrow> error option \<times> adsStream" where
  "ClusterDiscovery c s ver nonce clusters =
     Send s \<lparr>Node = node c, TypeUrl = cdsURL, ResourceNames = clusters,
             VersionInfo = ver, ResponseNonce = nonce\<rparr>"

definition EndpointDiscovery ::
  "Client \<Rightarrow> adsStream \<Rightarrow> string \<Rightarrow> string \<Rightarrow> string list \<Rightarrow> error option \<times> adsStream" where
  "EndpointDiscovery c s ver nonce clusters =
     Send s \<lparr>Node = node c, TypeUrl = edsURL, ResourceNames = clusters,
             VersionInfo = ver, ResponseNonce = nonce\<rparr>"

subsection \<open>The receive loop\<close>

text \<open>The calls made to the logger and to \<^verbatim>\<open>println\<close>, with their arguments unformatted.\<close>

datatype arg = Str string | Num nat | Err error

datatype log_entry =
    Println "arg list"
  | Debug "arg list"
  | Warningf string "arg list"

text \<open>
  The inner loop of the Cluster case: a resource that does not decode, or decodes to
  another message than a Cluster, is passed over; a Cluster is recorded with a nil
  assignment.
\<close>

fun record_clusters :: "unmarshal \<Rightarrow> assignment \<Rightarrow> any list \<Rightarrow> panic + assignment" where
  "record_clusters unmarshalAny a [] = Inr a"
| "record_clusters unmarshalAny a (r # rs) =
     (case unmarshalAny r of
        Inl err \<Rightarrow> record_clusters unmarshalAny a rs
      | Inr (ClusterMessage cluster) \<Rightarrow>
          (case SetClusterLoadAssignment a (GetName cluster) None of
             Inl p \<Rightarrow> Inl p
           | Inr a' \<Rightarrow> record_clusters unmarshalAny a' rs)
      | Inr _ \<Rightarrow> record_clusters unmarshalAny a rs)"

text \<open>One turn of the loop of Receive, from the switch on, for a response that was received.\<close>

definition Receive_body ::
  "unmarshal \<Rightarrow> Client \<Rightarrow> adsStream \<Rightarrow> log_entry list \<Rightarrow> xdspb_DiscoveryResponse
     \<Rightarrow> panic + (Client \<times> adsStream \<times> log_entry list)" where
  "Receive_body unmarshalAny c s lg resp =
     (if GetTypeUrl resp = cdsURL then
        (case record_clusters unmarshalAny (assignments c) (GetResources resp) of
           Inl p \<Rightarrow> Inl p
         | Inr a \<Rightarrow>
             (let c1 = c\<lparr>assignments := a\<rparr>;
                  lg1 = lg @ [Println [Str ''HERER'', Num (length (GetResources resp))],
                              Debug [Str ''Cluster discovery processed with %d resources'',
                                     Num (length (GetResources resp))]];
                  (err1, s1) = ClusterDiscovery c1 s (GetVersionInfo resp) (GetNonce resp)
                                 (Clusters (assignments c1));
                  lg2 = (case err1 of
                           None \<Rightarrow> lg1
                         | Some e \<Rightarrow>
                             lg1 @ [Warningf ''Failed to acknowledge cluster discovery: %s'' [Err e]]);
                  (err2, s2) = EndpointDiscovery c1 s1 [] [] (Clusters (assignments c1));
                  lg3 = (case err2 of
                           None \<Rightarrow> lg2
                         | Some e \<Rightarrow>
                             lg2 @ [Warningf ''Failed to perform endpoint discovery: %s'' [Err e]])
              in Inr (c1, s2, lg3)))
      else if GetTypeUrl resp = edsURL then
        Inr (c, s, lg @ [Println [Str ''EDS'']])
      else
        Inr (c, s, lg @ [Warningf ''Unknown response URL for discovery: %q'' [Str (GetTypeUrl resp)]]))"

text \<open>
  Receive loops until \<^verbatim>\<open>Recv\<close> fails, and may loop for ever: it is a partial function,
  \<open>None\<close> standing for a loop that does not return. When it returns, the result is the
  error of \<^verbatim>\<open>Recv\<close>, or the panic of a write to a nil map, with the state at that point.
\<close>

datatype outcome = Returned error | Panicked panic

partial_function (option) Receive ::
  "unmarshal \<Rightarrow> Client \<Rightarrow> adsStream \<Rightarrow> log_entry list
     \<Rightarrow> (outcome \<times> Client \<times> adsStream \<times> log_entry list) option" where
  "Receive unmarshalAny c s lg =
     (case Recv s of
        (Inl err, s') \<Rightarrow> Some (Returned err, c, s', lg)
      | (Inr resp, s') \<Rightarrow>
          (case Receive_body unmarshalAny c s' lg resp of
             Inl p \<Rightarrow> Some (Panicked p, c, s', lg)
           | Inr (c', s'', lg') \<Rightarrow> Receive unmarshalAny c' s'' lg'))"

subsection \<open>Reading the model\<close>

text \<open>The content of the store as a partial map; the nil map has no entry.\<close>

definition entries :: "assignment \<Rightarrow> string \<rightharpoonup> xdspb_ClusterLoadAssignment option" where
  "entries a = (case cla a of None \<Rightarrow> Map.empty | Some m \<Rightarrow> map_of m)"

text \<open>
  The names of the resources of a response that decode to a Cluster, in the order of the
  response: those for which the inner loop of Receive reaches SetClusterLoadAssignment.
\<close>

definition unpacked_cluster :: "unmarshal \<Rightarrow> any \<Rightarrow> xdspb_Cluster option" where
  "unpacked_cluster unmarshalAny r =
     (case unmarshalAny r of Inr (ClusterMessage cluster) \<Rightarrow> Some cluster | _ \<Rightarrow> None)"

definition unpacked_names :: "unmarshal \<Rightarrow> any list \<Rightarrow> string list" where
  "unpacked_names unmarshalAny rs =
     map GetName (List.map_filter (unpacked_cluster unmarshalAny) rs)"

subsection \<open>Values for the examples\<close>

text \<open>
  A stand-in decoder for the examples: a resource of the Cluster type with a non-empty
  payload is a Cluster of that name, one of the ClusterLoadAssignment type is an
  assignment for the cluster of that name, anything else fails to decode.
\<close>

definition example_unmarshalAny :: unmarshal where
  "example_unmarshalAny r =
     (case r of Any url v \<Rightarrow>
        if url = cdsURL \<and> v \<noteq> [] then Inr (ClusterMessage \<lparr>GetName = v\<rparr>)
        else if url = edsURL then
          Inr (ClusterLoadAssignmentMessage \<lparr>ClusterName = v, Endpoints = [''1.2.3.4:80'']\<rparr>)
        else Inl (Error ''cannot decode''))"

definition example_dial :: "string \<Rightarrow> error + ClientConn" where
  "example_dial addr = Inr (ClientConn addr)"

definition example_assignment :: xdspb_ClusterLoadAssignment where
  "example_assignment = \<lparr>ClusterName = ''a'', Endpoints = [''1.2.3.4:80'']\<rparr>"

definition example_client :: Client where
  "example_client =
     \<lparr>cc = ClientConn ''127.0.0.1:18000'',
      assignments = \<lparr>cla = Some [], version = 0\<rparr>,
      node = \<lparr>NodeId = ''test-id''\<rparr>\<rparr>"

definition example_stream :: adsStream where
  "example_stream =
     \<lparr>incoming = sconst (Inl (Error ''EOF'')), send_results = sconst None, sent = []\<rparr>"

text \<open>A Cluster response naming a and b, with an entry that does not decode in between.\<close>

definition example_cds_response :: xdspb_DiscoveryResponse where
  "example_cds_response =
     \<lparr>GetVersionInfo = ''1'',
      GetResources = [Any cdsURL ''a'', Any cdsURL [], Any cdsURL ''b''],
      GetTypeUrl = cdsURL,
      GetNonce = ''n1''\<rparr>"

text \<open>A later Cluster response that names b again, then a, then a message of another type.\<close>

definition example_cds_response2 :: xdspb_DiscoveryResponse where
  "example_cds_response2 =
     \<lparr>GetVersionInfo = ''2'',
      GetResources = [Any cdsURL ''b'', Any cdsURL ''a'', Any edsURL ''a''],
      GetTypeUrl = cdsURL,
      GetNonce = ''n2''\<rparr>"

text \<open>An Endpoint response carrying an assignment for cluster a.\<close>

definition example_eds_response :: xdspb_DiscoveryResponse where
  "example_eds_response =
     \<lparr>GetVersionInfo = ''1'',
      GetResources = [Any edsURL ''a''],
      GetTypeUrl = edsURL,
      GetNonce = ''n3''\<rparr>"

text \<open>A response of a type the client does not know.\<close>

definition example_lds_response :: xdspb_DiscoveryResponse where
  "example_lds_response =
     \<lparr>GetVersionInfo = ''1'',
      GetResources = [],
      GetTypeUrl = ''type.googleapis.com/envoy.api.v2.Listener'',
      GetNonce = ''n4''\<rparr>"

text \<open>A stream on which the first two calls of Send fail.\<close>

definition example_broken_stream :: adsStream where
  "example_broken_stream =
     \<lparr>incoming = Inr example_cds_response ## sconst (Inl (Error ''EOF'')),
      send_results = Some (Error ''broken pipe'') ## Some (Error ''broken pipe'') ## sconst None,
      sent = []\<rparr>"

section \<open>The store\<close>

lemma cdsURL_neq_edsURL: "cdsURL \<noteq> edsURL"
  by (simp add: cdsURL_def edsURL_def)

lemma set_Clusters: "set (Clusters a) = dom (entries a)"
  by (auto simp add: Clusters_def entries_def dom_map_of_conv_image_fst split: option.splits)

lemma unpacked_names_Nil: "unpacked_names um [] = []"
  by (simp add: unpacked_names_def map_filter_simps)

lemma unpacked_names_Cons:
  "unpacked_names um (r # rs) =
     (case unpacked_cluster um r of
        None \<Rightarrow> unpacked_names um rs
      | Some cluster \<Rightarrow> GetName cluster # unpacked_names um rs)"
  by (simp add: unpacked_names_def map_filter_simps split: option.splits)

lemma SetClusterLoadAssignment_nil:
  assumes "cla a = Some m"
  shows "\<exists>a'. SetClusterLoadAssignment a k None = Inr a' \<and> cla a' \<noteq> None \<and>
           version a' = version a \<and>
           entries a' = (if k \<in> dom (entries a) then entries a else (entries a)(k \<mapsto> None))"
  using assms
  by (auto simp add: SetClusterLoadAssignment_def entries_def update_conv' split: option.splits)

lemma record_clusters_allocated:
  "cla a \<noteq> None \<Longrightarrow>
   \<exists>a'. record_clusters um a rs = Inr a' \<and> cla a' \<noteq> None \<and> version a' = version a \<and>
        dom (entries a') = dom (entries a) \<union> set (unpacked_names um rs) \<and>
        (\<forall>k \<in> dom (entries a). entries a' k = entries a k) \<and>
        (\<forall>k. k \<notin> dom (entries a) \<longrightarrow> k \<in> set (unpacked_names um rs)
              \<longrightarrow> entries a' k = Some None)"
proof (induction rs arbitrary: a)
  case Nil
  then show ?case by (simp add: unpacked_names_Nil)
next
  case (Cons r rs)
  show ?case
  proof (cases "unpacked_cluster um r")
    case None
    then have "record_clusters um a (r # rs) = record_clusters um a rs"
      by (simp add: unpacked_cluster_def split: sum.splits message.splits)
    with None Cons.IH [OF Cons.prems] show ?thesis
      by (simp add: unpacked_names_Cons)
  next
    case (Some cluster)
    then have dec: "um r = Inr (ClusterMessage cluster)"
      by (simp add: unpacked_cluster_def split: sum.splits message.splits)
    from Cons.prems obtain m where "cla a = Some m" by auto
    from SetClusterLoadAssignment_nil [OF this, of "GetName cluster"]
    obtain a1 where a1: "SetClusterLoadAssignment a (GetName cluster) None = Inr a1"
      "cla a1 \<noteq> None" "version a1 = version a"
      "entries a1 = (if GetName cluster \<in> dom (entries a) then entries a
                     else (entries a)(GetName cluster \<mapsto> None))"
      by blast
    from Cons.IH [OF a1(2)] obtain a' where a':
      "record_clusters um a1 rs = Inr a'" "cla a' \<noteq> None" "version a' = version a1"
      "dom (entries a') = dom (entries a1) \<union> set (unpacked_names um rs)"
      "\<forall>k \<in> dom (entries a1). entries a' k = entries a1 k"
      "\<forall>k. k \<notin> dom (entries a1) \<longrightarrow> k \<in> set (unpacked_names um rs) \<longrightarrow> entries a' k = Some None"
      by blast
    have run: "record_clusters um a (r # rs) = Inr a'"
      using dec a1(1) a'(1) by simp
    have names: "unpacked_names um (r # rs) = GetName cluster # unpacked_names um rs"
      using Some by (simp add: unpacked_names_Cons)
    have d1: "dom (entries a1) = insert (GetName cluster) (dom (entries a))"
      using a1(4) by (auto split: if_splits)
    have keep: "\<forall>k \<in> dom (entries a). entries a1 k = entries a k"
      using a1(4) by (auto split: if_splits)
    have fresh: "GetName cluster \<notin> dom (entries a) \<Longrightarrow> entries a1 (GetName cluster) = Some None"
      using a1(4) by simp
    have dom': "dom (entries a') = dom (entries a) \<union> set (unpacked_names um (r # rs))"
      using names d1 a'(4) by auto
    have old: "\<forall>k \<in> dom (entries a). entries a' k = entries a k"
      using keep a'(5) d1 by auto
    have new: "entries a' k = Some None"
      if "k \<notin> dom (entries a)" "k \<in> set (unpacked_names um (r # rs))" for k
    proof (cases "k = GetName cluster")
      case True
      with that(1) fresh have "entries a1 k = Some None" by simp
      moreover have "k \<in> dom (entries a1)" using True d1 by simp
      ultimately show ?thesis using a'(5) by simp
    next
      case False
      with that names d1 have "k \<notin> dom (entries a1)" "k \<in> set (unpacked_names um rs)"
        by auto
      with a'(6) show ?thesis by blast
    qed
    from run a'(2) a'(3) a1(3) dom' old new show ?thesis
      by auto
  qed
qed



text \<open>New allocates the map, and a write is what panics on a map that is not allocated.\<close>

lemma New_allocated:
  "New dial addr node_arg = Inr c \<Longrightarrow>
   cla (assignments c) = Some [] \<and> node c = \<lparr>NodeId = ''test-id''\<rparr>"
  by (auto simp add: New_def split: sum.splits)

lemma SetClusterLoadAssignment_nil_map:
  "cla a = None \<Longrightarrow> SetClusterLoadAssignment a cluster c = Inl AssignmentToEntryInNilMap"
  by (simp add: SetClusterLoadAssignment_def)

lemma entries_update:
  "entries (a\<lparr>cla := Some (AList.update k v m)\<rparr>) = (map_of m)(k \<mapsto> v)"
  by (simp add: entries_def update_conv')

lemma entries_Some: "cla a = Some m \<Longrightarrow> entries a = map_of m"
  by (simp add: entries_def)

text \<open>
  C3. On a store whose map is allocated (as New leaves it), SetClusterLoadAssignment
  returns normally and keeps the map allocated. A name that is absent is recorded with the
  given assignment, nil or not. For a name that is present, a nil assignment leaves the
  whole store as it was, and a non-nil assignment replaces what was stored. In particular
  a nil assignment never erases a non-nil assignment that was recorded.
\<close>

theorem SetClusterLoadAssignment_first_existence_last_content:
  assumes "cla a = Some m"
  shows "\<exists>a'. SetClusterLoadAssignment a cluster c = Inr a' \<and> cla a' \<noteq> None \<and>
           (entries a cluster = None \<longrightarrow> entries a' = (entries a)(cluster \<mapsto> c)) \<and>
           (entries a cluster \<noteq> None \<and> c = None \<longrightarrow> a' = a) \<and>
           (c \<noteq> None \<longrightarrow> entries a' = (entries a)(cluster \<mapsto> c)) \<and>
           (\<forall>x. c = None \<and> entries a cluster = Some (Some x)
                 \<longrightarrow> entries a' cluster = Some (Some x))"
proof (cases "map_of m cluster")
  case None
  with assms show ?thesis
    by (simp add: SetClusterLoadAssignment_def entries_Some entries_update)
next
  case (Some old)
  with assms show ?thesis
    by (cases c) (simp_all add: SetClusterLoadAssignment_def entries_Some entries_update)
qed

theorem SetClusterLoadAssignment_first_existence_last_content_witness:
  "cla \<lparr>cla = Some [(''a'', Some example_assignment)], version = 0\<rparr>
     = Some [(''a'', Some example_assignment)] \<and>
   entries \<lparr>cla = Some [(''a'', Some example_assignment)], version = 0\<rparr> ''a''
     = Some (Some example_assignment) \<and>
   SetClusterLoadAssignment \<lparr>cla = Some [(''a'', Some example_assignment)], version = 0\<rparr> ''a'' None
     = Inr \<lparr>cla = Some [(''a'', Some example_assignment)], version = 0\<rparr> \<and>
   entries \<lparr>cla = Some [(''a'', Some example_assignment)], version = 0\<rparr> ''b'' = None \<and>
   (\<exists>a'. SetClusterLoadAssignment \<lparr>cla = Some [(''a'', Some example_assignment)], version = 0\<rparr> ''b'' None
           = Inr a' \<and> entries a' ''b'' = Some None \<and> entries a' ''a'' = Some (Some example_assignment)) \<and>
   (\<exists>a'. SetClusterLoadAssignment \<lparr>cla = Some [(''a'', Some example_assignment)], version = 0\<rparr> ''a''
             (Some \<lparr>ClusterName = ''a'', Endpoints = []\<rparr>)
           = Inr a' \<and> entries a' ''a'' = Some (Some \<lparr>ClusterName = ''a'', Endpoints = []\<rparr>))"
  using SetClusterLoadAssignment_first_existence_last_content
          [of "\<lparr>cla = Some [(''a'', Some example_assignment)], version = 0\<rparr>"
              "[(''a'', Some example_assignment)]" "''a''" None]
        SetClusterLoadAssignment_first_existence_last_content
          [of "\<lparr>cla = Some [(''a'', Some example_assignment)], version = 0\<rparr>"
              "[(''a'', Some example_assignment)]" "''b''" None]
        SetClusterLoadAssignment_first_existence_last_content
          [of "\<lparr>cla = Some [(''a'', Some example_assignment)], version = 0\<rparr>"
              "[(''a'', Some example_assignment)]" "''a''"
              "Some \<lparr>ClusterName = ''a'', Endpoints = []\<rparr>"]
  by (auto simp add: entries_def)

section \<open>The receive loop\<close>

lemma Receive_body_cds:
  assumes "GetTypeUrl resp = cdsURL"
    and "record_clusters um (assignments c) (GetResources resp) = Inr a"
  shows "Receive_body um c s lg resp =
     Inr (c\<lparr>assignments := a\<rparr>,
          s\<lparr>send_results := stl (stl (send_results s)),
            sent := sent s @
              [\<lparr>Node = node c, TypeUrl = cdsURL, ResourceNames = Clusters a,
                VersionInfo = GetVersionInfo resp, ResponseNonce = GetNonce resp\<rparr>,
               \<lparr>Node = node c, TypeUrl = edsURL, ResourceNames = Clusters a,
                VersionInfo = [], ResponseNonce = []\<rparr>]\<rparr>,
          lg @ [Println [Str ''HERER'', Num (length (GetResources resp))],
                Debug [Str ''Cluster discovery processed with %d resources'',
                       Num (length (GetResources resp))]]
             @ (case shd (send_results s) of
                  None \<Rightarrow> []
                | Some e \<Rightarrow> [Warningf ''Failed to acknowledge cluster discovery: %s'' [Err e]])
             @ (case shd (stl (send_results s)) of
                  None \<Rightarrow> []
                | Some e \<Rightarrow> [Warningf ''Failed to perform endpoint discovery: %s'' [Err e]]))"
  using assms
  by (simp add: Receive_body_def ClusterDiscovery_def EndpointDiscovery_def Send_def Let_def
           split: option.splits)

lemma Receive_body_eds:
  "GetTypeUrl resp = edsURL \<Longrightarrow>
   Receive_body um c s lg resp = Inr (c, s, lg @ [Println [Str ''EDS'']])"
  using cdsURL_neq_edsURL by (simp add: Receive_body_def)

lemma Receive_body_unknown:
  "GetTypeUrl resp \<noteq> cdsURL \<Longrightarrow> GetTypeUrl resp \<noteq> edsURL \<Longrightarrow>
   Receive_body um c s lg resp =
     Inr (c, s, lg @ [Warningf ''Unknown response URL for discovery: %q'' [Str (GetTypeUrl resp)]])"
  by (simp add: Receive_body_def)

lemma Receive_Recv_error:
  "shd (incoming s) = Inl err \<Longrightarrow>
   Receive um c s lg = Some (Returned err, c, s\<lparr>incoming := stl (incoming s)\<rparr>, lg)"
  by (subst Receive.simps) (simp add: Recv_def)

lemma Receive_Recv_response:
  "shd (incoming s) = Inr resp \<Longrightarrow>
   Receive_body um c (s\<lparr>incoming := stl (incoming s)\<rparr>) lg resp = Inr (c', s', lg') \<Longrightarrow>
   Receive um c s lg = Receive um c' s' lg'"
  by (subst Receive.simps) (simp add: Recv_def)

lemma Receive_cds_run:
  assumes "cla (assignments c) \<noteq> None"
    and "\<forall>resp \<in> set resps. GetTypeUrl resp = cdsURL"
    and "incoming s = map Inr resps @- (Inl err ## rest)"
  shows "\<exists>c' s' lg'. Receive um c s lg = Some (Returned err, c', s', lg') \<and>
           cla (assignments c') \<noteq> None \<and> node c' = node c \<and> incoming s' = rest \<and>
           length (sent s') = length (sent s) + 2 * length resps \<and>
           dom (entries (assignments c')) =
             dom (entries (assignments c)) \<union>
             (\<Union>resp \<in> set resps. set (unpacked_names um (GetResources resp)))"
  using assms
proof (induction resps arbitrary: c s lg)
  case Nil
  then have "shd (incoming s) = Inl err" "stl (incoming s) = rest" by simp_all
  with Receive_Recv_error [of s err um c lg] Nil.prems(1) show ?case by simp
next
  case (Cons resp resps)
  from Cons.prems(3) have hd: "shd (incoming s) = Inr resp"
    and tl: "stl (incoming s) = map Inr resps @- (Inl err ## rest)" by simp_all
  from Cons.prems(2) have cds: "GetTypeUrl resp = cdsURL" by simp
  from record_clusters_allocated [OF Cons.prems(1), of um "GetResources resp"]
  obtain a where a: "record_clusters um (assignments c) (GetResources resp) = Inr a"
    "cla a \<noteq> None"
    "dom (entries a) = dom (entries (assignments c)) \<union> set (unpacked_names um (GetResources resp))"
    by blast
  define c1 where "c1 = c\<lparr>assignments := a\<rparr>"
  define s1 where "s1 = s\<lparr>incoming := stl (incoming s)\<rparr>
     \<lparr>send_results := stl (stl (send_results (s\<lparr>incoming := stl (incoming s)\<rparr>))),
      sent := sent (s\<lparr>incoming := stl (incoming s)\<rparr>) @
        [\<lparr>Node = node c, TypeUrl = cdsURL, ResourceNames = Clusters a,
          VersionInfo = GetVersionInfo resp, ResponseNonce = GetNonce resp\<rparr>,
         \<lparr>Node = node c, TypeUrl = edsURL, ResourceNames = Clusters a,
          VersionInfo = [], ResponseNonce = []\<rparr>]\<rparr>"
  from Receive_body_cds [OF cds a(1), of "s\<lparr>incoming := stl (incoming s)\<rparr>" lg]
  obtain lg1 where body:
    "Receive_body um c (s\<lparr>incoming := stl (incoming s)\<rparr>) lg resp = Inr (c1, s1, lg1)"
    by (simp add: c1_def s1_def)
  have step: "Receive um c s lg = Receive um c1 s1 lg1"
    by (rule Receive_Recv_response [OF hd body])
  have c1: "cla (assignments c1) \<noteq> None" "node c1 = node c" "assignments c1 = a"
    using a(2) by (simp_all add: c1_def)
  have s1: "incoming s1 = map Inr resps @- (Inl err ## rest)"
    "length (sent s1) = length (sent s) + 2"
    using tl by (simp_all add: s1_def)
  from Cons.prems(2) have rest_cds: "\<forall>resp \<in> set resps. GetTypeUrl resp = cdsURL" by simp
  from Cons.IH [OF c1(1) rest_cds s1(1), of lg1]
  obtain c' s' lg' where fin: "Receive um c1 s1 lg1 = Some (Returned err, c', s', lg')"
    "cla (assignments c') \<noteq> None" "node c' = node c1" "incoming s' = rest"
    "length (sent s') = length (sent s1) + 2 * length resps"
    "dom (entries (assignments c')) =
       dom (entries (assignments c1)) \<union>
       (\<Union>resp \<in> set resps. set (unpacked_names um (GetResources resp)))"
    by blast
  have "dom (entries (assignments c')) =
          dom (entries (assignments c)) \<union>
          (\<Union>resp \<in> set (resp # resps). set (unpacked_names um (GetResources resp)))"
    using fin(6) c1(3) a(3) by auto
  with step fin c1 s1 show ?case by simp
qed

text \<open>
  C1. The claim asks that a lookup return the assignment recorded last for the name. The
  getter of the source returns nil whatever the store holds: after an assignment is
  recorded for cluster a in an empty store, the store holds it under a, and the lookup of a
  still yields nil.
\<close>

theorem ClusterLoadAssignment_ignores_store:
  "\<exists>a'. SetClusterLoadAssignment \<lparr>cla = Some [], version = 0\<rparr> ''a'' (Some example_assignment)
           = Inr a' \<and>
        entries a' ''a'' = Some (Some example_assignment) \<and>
        ClusterLoadAssignment a' ''a'' = None"
  by (simp add: SetClusterLoadAssignment_def entries_def ClusterLoadAssignment_def)

text \<open>
  C2. Let the store be allocated and let the stream deliver a sequence of Cluster-type
  responses and then fail. The loop returns the error of the stream, and the set of names
  that Clusters lists afterwards is the set it listed before together with every name that
  decoded to a Cluster in one of the responses; from the empty store that New makes, it is
  exactly the union of those names. The union ranges over the set of the responses, so
  neither their order nor their repetition matters.
\<close>

theorem Receive_cluster_names_union:
  assumes "cla (assignments c) \<noteq> None"
    and "list_all (\<lambda>resp. GetTypeUrl resp = cdsURL) resps"
    and "incoming s = map Inr resps @- (Inl err ## rest)"
  shows "\<exists>c' s' lg'. Receive unmarshalAny c s lg = Some (Returned err, c', s', lg') \<and>
           set (Clusters (assignments c')) =
             set (Clusters (assignments c)) \<union>
             (\<Union>resp \<in> set resps. set (unpacked_names unmarshalAny (GetResources resp))) \<and>
           (cla (assignments c) = Some [] \<longrightarrow>
              set (Clusters (assignments c')) =
                (\<Union>resp \<in> set resps. set (unpacked_names unmarshalAny (GetResources resp))))"
proof -
  from assms(2) have "\<forall>resp \<in> set resps. GetTypeUrl resp = cdsURL"
    by (simp add: list_all_iff)
  from Receive_cds_run [OF assms(1) this assms(3), of unmarshalAny lg]
  obtain c' s' lg' where run: "Receive unmarshalAny c s lg = Some (Returned err, c', s', lg')"
    "dom (entries (assignments c')) =
       dom (entries (assignments c)) \<union>
       (\<Union>resp \<in> set resps. set (unpacked_names unmarshalAny (GetResources resp)))"
    by blast
  have "cla (assignments c) = Some [] \<Longrightarrow> dom (entries (assignments c)) = {}"
    by (simp add: entries_def)
  with run show ?thesis
    by (auto simp add: set_Clusters)
qed

lemma example_names1:
  "unpacked_names example_unmarshalAny (GetResources example_cds_response) = [''a'', ''b'']"
  by (simp add: unpacked_names_def map_filter_simps unpacked_cluster_def example_unmarshalAny_def
        example_cds_response_def)

lemma example_names2:
  "unpacked_names example_unmarshalAny (GetResources example_cds_response2) = [''b'', ''a'']"
  using cdsURL_neq_edsURL
  by (simp add: unpacked_names_def map_filter_simps unpacked_cluster_def example_unmarshalAny_def
        example_cds_response2_def)

theorem Receive_cluster_names_union_witness:
  "cla (assignments example_client) = Some [] \<and>
   GetTypeUrl example_cds_response = cdsURL \<and> GetTypeUrl example_cds_response2 = cdsURL \<and>
   (\<exists>c' s' lg'.
      Receive example_unmarshalAny example_client
        (example_stream\<lparr>incoming :=
           Inr example_cds_response ## Inr example_cds_response2 ## Inr example_cds_response
             ## sconst (Inl (Error ''EOF''))\<rparr>) []
        = Some (Returned (Error ''EOF''), c', s', lg') \<and>
      set (Clusters (assignments c')) = {''a'', ''b''})"
proof -
  have types: "GetTypeUrl example_cds_response = cdsURL" "GetTypeUrl example_cds_response2 = cdsURL"
    by (simp_all add: example_cds_response_def example_cds_response2_def)
  have alloc: "cla (assignments example_client) = Some []"
    by (simp add: example_client_def)
  have tail: "sconst (Inl (Error ''EOF'')) = Inl (Error ''EOF'') ## sconst (Inl (Error ''EOF''))"
    by (subst siterate.code) simp
  have script: "incoming (example_stream\<lparr>incoming :=
           Inr example_cds_response ## Inr example_cds_response2 ## Inr example_cds_response
             ## sconst (Inl (Error ''EOF''))\<rparr>)
       = map Inr [example_cds_response, example_cds_response2, example_cds_response]
           @- (Inl (Error ''EOF'') ## sconst (Inl (Error ''EOF'')))"
    using tail by simp
  from Receive_cluster_names_union [OF _ _ script, of example_client example_unmarshalAny "[]"]
    types alloc
  show ?thesis
    by (auto simp add: example_names1 example_names2)
qed


lemma length_Clusters: "length (Clusters a) = card (dom (entries a))"
proof -
  have "distinct (Clusters a)"
    by (simp add: Clusters_def split: option.splits)
  then have "length (Clusters a) = card (set (Clusters a))"
    by (simp add: distinct_card)
  then show ?thesis by (simp add: set_Clusters)
qed

lemma unpacked_split:
  "length (unpacked_names um rs) + length (filter (\<lambda>r. unpacked_cluster um r = None) rs)
     = length rs"
  by (induction rs) (auto simp add: unpacked_names_Nil unpacked_names_Cons split: option.splits)

lemma Receive_body_cds_allocated:
  assumes "cla (assignments c) \<noteq> None" and "GetTypeUrl resp = cdsURL"
  shows "\<exists>a lg'. record_clusters um (assignments c) (GetResources resp) = Inr a \<and>
      cla a \<noteq> None \<and> version a = version (assignments c) \<and>
      dom (entries a) = dom (entries (assignments c)) \<union> set (unpacked_names um (GetResources resp)) \<and>
      (\<forall>k \<in> dom (entries (assignments c)). entries a k = entries (assignments c) k) \<and>
      (\<forall>k. k \<notin> dom (entries (assignments c)) \<longrightarrow> k \<in> set (unpacked_names um (GetResources resp))
              \<longrightarrow> entries a k = Some None) \<and>
      Receive_body um c s lg resp =
        Inr (c\<lparr>assignments := a\<rparr>,
             s\<lparr>send_results := stl (stl (send_results s)),
               sent := sent s @
                 [\<lparr>Node = node c, TypeUrl = cdsURL, ResourceNames = Clusters a,
                   VersionInfo = GetVersionInfo resp, ResponseNonce = GetNonce resp\<rparr>,
                  \<lparr>Node = node c, TypeUrl = edsURL, ResourceNames = Clusters a,
                   VersionInfo = [], ResponseNonce = []\<rparr>]\<rparr>,
             lg') \<and>
      (\<forall>e. shd (send_results s) = Some e \<longrightarrow>
           Warningf ''Failed to acknowledge cluster discovery: %s'' [Err e] \<in> set lg') \<and>
      (\<forall>e. shd (stl (send_results s)) = Some e \<longrightarrow>
           Warningf ''Failed to perform endpoint discovery: %s'' [Err e] \<in> set lg')"
proof -
  from record_clusters_allocated [OF assms(1), of um "GetResources resp"]
  obtain a where a: "record_clusters um (assignments c) (GetResources resp) = Inr a"
    "cla a \<noteq> None" "version a = version (assignments c)"
    "dom (entries a) = dom (entries (assignments c)) \<union> set (unpacked_names um (GetResources resp))"
    "\<forall>k \<in> dom (entries (assignments c)). entries a k = entries (assignments c) k"
    "\<forall>k. k \<notin> dom (entries (assignments c)) \<longrightarrow> k \<in> set (unpacked_names um (GetResources resp))
              \<longrightarrow> entries a k = Some None"
    by blast
  note body = Receive_body_cds [OF assms(2) a(1), of s lg]
  show ?thesis
    apply (rule exI [of _ a])
    apply (rule exI)
    apply (intro conjI)
            apply (rule a(1))
           apply (rule a(2))
          apply (rule a(3))
         apply (rule a(4))
        apply (rule a(5))
       apply (rule a(6))
      apply (rule body)
     apply simp
    apply simp
    done
qed


lemma example_record_clusters:
  "record_clusters example_unmarshalAny (assignments example_client)
     (GetResources example_cds_response)
   = Inr \<lparr>cla = Some [(''a'', None), (''b'', None)], version = 0\<rparr>"
  by (simp add: example_unmarshalAny_def example_client_def example_cds_response_def
        SetClusterLoadAssignment_def)

lemma example_Receive_body_cds:
  "Receive_body example_unmarshalAny example_client example_stream [] example_cds_response
   = Inr (example_client\<lparr>assignments := \<lparr>cla = Some [(''a'', None), (''b'', None)], version = 0\<rparr>\<rparr>,
          example_stream\<lparr>sent :=
            [\<lparr>Node = \<lparr>NodeId = ''test-id''\<rparr>, TypeUrl = cdsURL, ResourceNames = [''a'', ''b''],
              VersionInfo = ''1'', ResponseNonce = ''n1''\<rparr>,
             \<lparr>Node = \<lparr>NodeId = ''test-id''\<rparr>, TypeUrl = edsURL, ResourceNames = [''a'', ''b''],
              VersionInfo = [], ResponseNonce = []\<rparr>]\<rparr>,
          [Println [Str ''HERER'', Num 3],
           Debug [Str ''Cluster discovery processed with %d resources'', Num 3]])"
proof -
  have types: "GetTypeUrl example_cds_response = cdsURL"
    by (simp add: example_cds_response_def)
  have "Clusters \<lparr>cla = Some [(''a'', None), (''b'', None)], version = 0\<rparr> = [''a'', ''b'']"
    by (simp add: Clusters_def)
  with Receive_body_cds [OF types example_record_clusters, of example_stream "[]"]
  show ?thesis
    by (simp add: example_stream_def example_client_def example_cds_response_def)
qed


lemma Receive_body_incoming:
  "Receive_body um c s lg resp = Inr (c', s', lg') \<Longrightarrow> incoming s' = incoming s"
  by (auto simp add: Receive_body_def ClusterDiscovery_def EndpointDiscovery_def Send_def Let_def
        split: if_splits sum.splits prod.splits)

lemma Receive_turn_then_error:
  assumes "incoming s = Inr resp ## rest"
    and "Receive_body um c (s\<lparr>incoming := rest\<rparr>) lg resp = Inr (c', s', lg')"
    and "shd rest = Inl err"
  shows "Receive um c s lg = Some (Returned err, c', s'\<lparr>incoming := stl rest\<rparr>, lg')"
proof -
  from assms(1) have hd: "shd (incoming s) = Inr resp" and tl: "stl (incoming s) = rest"
    by simp_all
  from assms(2) tl have body:
    "Receive_body um c (s\<lparr>incoming := stl (incoming s)\<rparr>) lg resp = Inr (c', s', lg')"
    by simp
  have step: "Receive um c s lg = Receive um c' s' lg'"
    by (rule Receive_Recv_response [OF hd body])
  from Receive_body_incoming [OF assms(2)] have inc: "incoming s' = rest"
    by simp
  with assms(3) have "shd (incoming s') = Inl err" by simp
  from Receive_Recv_error [OF this, of um c' lg'] inc step show ?thesis
    by simp
qed

text \<open>
  C5. For a Cluster-type response received on a client whose store is allocated, the turn
  of the loop hands exactly two requests to the stream, in this order: a Cluster-type
  request carrying the version and the nonce of the response and naming the clusters the
  store holds after the response, then an Endpoint-type request with empty version and
  nonce naming the same clusters. The loop then goes on from that state; when the next
  call of Recv fails, Receive returns that error together with the client and the stream
  of that state, the two requests being the last ones sent.
\<close>

theorem Receive_cds_follow_up_requests:
  assumes "cla (assignments c) \<noteq> None"
    and "GetTypeUrl resp = cdsURL"
    and "incoming s = Inr resp ## rest"
  shows "\<exists>c' s' lg'.
           Receive_body unmarshalAny c (s\<lparr>incoming := rest\<rparr>) lg resp = Inr (c', s', lg') \<and>
           Receive unmarshalAny c s lg = Receive unmarshalAny c' s' lg' \<and>
           (\<forall>err. shd rest = Inl err \<longrightarrow>
              Receive unmarshalAny c s lg
                = Some (Returned err, c', s'\<lparr>incoming := stl rest\<rparr>, lg')) \<and>
           (\<exists>ack eds.
              sent s' = sent s @ [ack, eds] \<and>
              sent (s'\<lparr>incoming := stl rest\<rparr>) = sent s @ [ack, eds] \<and>
              TypeUrl ack = cdsURL \<and>
              VersionInfo ack = GetVersionInfo resp \<and>
              ResponseNonce ack = GetNonce resp \<and>
              set (ResourceNames ack) = set (Clusters (assignments c')) \<and>
              TypeUrl eds = edsURL \<and>
              VersionInfo eds = [] \<and> ResponseNonce eds = [] \<and>
              set (ResourceNames eds) = set (Clusters (assignments c')))"
proof -
  from assms(3) have hd: "shd (incoming s) = Inr resp" and tl: "stl (incoming s) = rest"
    by simp_all
  from Receive_body_cds_allocated [OF assms(1,2), of unmarshalAny "s\<lparr>incoming := rest\<rparr>" lg]
  obtain a lg' where body0:
    "Receive_body unmarshalAny c (s\<lparr>incoming := rest\<rparr>) lg resp =
        Inr (c\<lparr>assignments := a\<rparr>,
             s\<lparr>incoming := rest\<rparr>
              \<lparr>send_results := stl (stl (send_results (s\<lparr>incoming := rest\<rparr>))),
               sent := sent (s\<lparr>incoming := rest\<rparr>) @
                 [\<lparr>Node = node c, TypeUrl = cdsURL, ResourceNames = Clusters a,
                   VersionInfo = GetVersionInfo resp, ResponseNonce = GetNonce resp\<rparr>,
                  \<lparr>Node = node c, TypeUrl = edsURL, ResourceNames = Clusters a,
                   VersionInfo = [], ResponseNonce = []\<rparr>]\<rparr>,
             lg')"
    by blast
  define c1 where "c1 = c\<lparr>assignments := a\<rparr>"
  define s1 where "s1 = s\<lparr>incoming := rest\<rparr>
              \<lparr>send_results := stl (stl (send_results (s\<lparr>incoming := rest\<rparr>))),
               sent := sent (s\<lparr>incoming := rest\<rparr>) @
                 [\<lparr>Node = node c, TypeUrl = cdsURL, ResourceNames = Clusters a,
                   VersionInfo = GetVersionInfo resp, ResponseNonce = GetNonce resp\<rparr>,
                  \<lparr>Node = node c, TypeUrl = edsURL, ResourceNames = Clusters a,
                   VersionInfo = [], ResponseNonce = []\<rparr>]\<rparr>"
  have body: "Receive_body unmarshalAny c (s\<lparr>incoming := rest\<rparr>) lg resp = Inr (c1, s1, lg')"
    using body0 by (simp add: c1_def s1_def)
  from body tl have body':
    "Receive_body unmarshalAny c (s\<lparr>incoming := stl (incoming s)\<rparr>) lg resp = Inr (c1, s1, lg')"
    by simp
  have step: "Receive unmarshalAny c s lg = Receive unmarshalAny c1 s1 lg'"
    by (rule Receive_Recv_response [OF hd body'])
  have run: "\<forall>err. shd rest = Inl err \<longrightarrow>
               Receive unmarshalAny c s lg
                 = Some (Returned err, c1, s1\<lparr>incoming := stl rest\<rparr>, lg')"
    using Receive_turn_then_error [OF assms(3) body] by blast
  have reqs: "\<exists>ack eds.
      sent s1 = sent s @ [ack, eds] \<and>
      sent (s1\<lparr>incoming := stl rest\<rparr>) = sent s @ [ack, eds] \<and>
      TypeUrl ack = cdsURL \<and>
      VersionInfo ack = GetVersionInfo resp \<and>
      ResponseNonce ack = GetNonce resp \<and>
      set (ResourceNames ack) = set (Clusters (assignments c1)) \<and>
      TypeUrl eds = edsURL \<and>
      VersionInfo eds = [] \<and> ResponseNonce eds = [] \<and>
      set (ResourceNames eds) = set (Clusters (assignments c1))"
    by (simp add: s1_def c1_def)
  from body step run reqs show ?thesis
    by blast
qed

theorem Receive_cds_follow_up_requests_witness:
  "cla (assignments example_client) \<noteq> None \<and>
   GetTypeUrl example_cds_response = cdsURL \<and>
   shd (sconst (Inl (Error ''EOF'')) :: (error + xdspb_DiscoveryResponse) stream)
     = Inl (Error ''EOF'') \<and>
   Receive example_unmarshalAny example_client
     (example_stream\<lparr>incoming := Inr example_cds_response ## sconst (Inl (Error ''EOF''))\<rparr>) []
     = Some (Returned (Error ''EOF''),
             example_client\<lparr>assignments := \<lparr>cla = Some [(''a'', None), (''b'', None)], version = 0\<rparr>\<rparr>,
             example_stream\<lparr>sent :=
               [\<lparr>Node = \<lparr>NodeId = ''test-id''\<rparr>, TypeUrl = cdsURL, ResourceNames = [''a'', ''b''],
                 VersionInfo = ''1'', ResponseNonce = ''n1''\<rparr>,
                \<lparr>Node = \<lparr>NodeId = ''test-id''\<rparr>, TypeUrl = edsURL, ResourceNames = [''a'', ''b''],
                 VersionInfo = [], ResponseNonce = []\<rparr>]\<rparr>,
             [Println [Str ''HERER'', Num 3],
              Debug [Str ''Cluster discovery processed with %d resources'', Num 3]]) \<and>
   (\<exists>c' s' lg'.
      Receive_body example_unmarshalAny example_client example_stream [] example_cds_response
        = Inr (c', s', lg') \<and>
      Receive example_unmarshalAny example_client
        (example_stream\<lparr>incoming := Inr example_cds_response ## sconst (Inl (Error ''EOF''))\<rparr>) []
        = Receive example_unmarshalAny c' s' lg' \<and>
      set (Clusters (assignments c')) = {''a'', ''b''} \<and>
      sent s' =
        [\<lparr>Node = \<lparr>NodeId = ''test-id''\<rparr>, TypeUrl = cdsURL, ResourceNames = [''a'', ''b''],
          VersionInfo = ''1'', ResponseNonce = ''n1''\<rparr>,
         \<lparr>Node = \<lparr>NodeId = ''test-id''\<rparr>, TypeUrl = edsURL, ResourceNames = [''a'', ''b''],
          VersionInfo = [], ResponseNonce = []\<rparr>])"
proof -
  have alloc: "cla (assignments example_client) \<noteq> None"
    by (simp add: example_client_def)
  have types: "GetTypeUrl example_cds_response = cdsURL"
    by (simp add: example_cds_response_def)
  have eof: "shd (sconst (Inl (Error ''EOF'')) :: (error + xdspb_DiscoveryResponse) stream)
               = Inl (Error ''EOF'')"
    by simp
  have script: "incoming (example_stream\<lparr>incoming := Inr example_cds_response ## sconst (Inl (Error ''EOF''))\<rparr>)
      = Inr example_cds_response ## sconst (Inl (Error ''EOF''))"
    by simp
  have same: "example_stream\<lparr>incoming := Inr example_cds_response ## sconst (Inl (Error ''EOF''))\<rparr>
       \<lparr>incoming := sconst (Inl (Error ''EOF''))\<rparr> = example_stream"
    by (simp add: example_stream_def)
  from Receive_cds_follow_up_requests [OF alloc types script, of example_unmarshalAny "[]"]
  obtain c' s' lg' where
    body: "Receive_body example_unmarshalAny example_client example_stream [] example_cds_response
             = Inr (c', s', lg')"
    and step: "Receive example_unmarshalAny example_client
        (example_stream\<lparr>incoming := Inr example_cds_response ## sconst (Inl (Error ''EOF''))\<rparr>) []
        = Receive example_unmarshalAny c' s' lg'"
    and run: "\<forall>err. shd (sconst (Inl (Error ''EOF'')) :: (error + xdspb_DiscoveryResponse) stream) = Inl err \<longrightarrow>
        Receive example_unmarshalAny example_client
          (example_stream\<lparr>incoming := Inr example_cds_response ## sconst (Inl (Error ''EOF''))\<rparr>) []
          = Some (Returned err, c', s'\<lparr>incoming := stl (sconst (Inl (Error ''EOF'')))\<rparr>, lg')"
    unfolding same by blast
  from body have c': "c' = example_client\<lparr>assignments := \<lparr>cla = Some [(''a'', None), (''b'', None)], version = 0\<rparr>\<rparr>"
    and s': "s' = example_stream\<lparr>sent :=
            [\<lparr>Node = \<lparr>NodeId = ''test-id''\<rparr>, TypeUrl = cdsURL, ResourceNames = [''a'', ''b''],
              VersionInfo = ''1'', ResponseNonce = ''n1''\<rparr>,
             \<lparr>Node = \<lparr>NodeId = ''test-id''\<rparr>, TypeUrl = edsURL, ResourceNames = [''a'', ''b''],
              VersionInfo = [], ResponseNonce = []\<rparr>]\<rparr>"
    and lg': "lg' = [Println [Str ''HERER'', Num 3],
                     Debug [Str ''Cluster discovery processed with %d resources'', Num 3]]"
    by (simp_all add: example_Receive_body_cds)
  have restored: "s'\<lparr>incoming := stl (sconst (Inl (Error ''EOF'')))\<rparr> = s'"
    by (simp add: s' example_stream_def)
  from run eof have "Receive example_unmarshalAny example_client
          (example_stream\<lparr>incoming := Inr example_cds_response ## sconst (Inl (Error ''EOF''))\<rparr>) []
          = Some (Returned (Error ''EOF''), c', s'\<lparr>incoming := stl (sconst (Inl (Error ''EOF'')))\<rparr>, lg')"
    by blast
  from this restored c' s' lg' have fin: "Receive example_unmarshalAny example_client
     (example_stream\<lparr>incoming := Inr example_cds_response ## sconst (Inl (Error ''EOF''))\<rparr>) []
     = Some (Returned (Error ''EOF''),
             example_client\<lparr>assignments := \<lparr>cla = Some [(''a'', None), (''b'', None)], version = 0\<rparr>\<rparr>,
             example_stream\<lparr>sent :=
               [\<lparr>Node = \<lparr>NodeId = ''test-id''\<rparr>, TypeUrl = cdsURL, ResourceNames = [''a'', ''b''],
                 VersionInfo = ''1'', ResponseNonce = ''n1''\<rparr>,
                \<lparr>Node = \<lparr>NodeId = ''test-id''\<rparr>, TypeUrl = edsURL, ResourceNames = [''a'', ''b''],
                 VersionInfo = [], ResponseNonce = []\<rparr>]\<rparr>,
             [Println [Str ''HERER'', Num 3],
              Debug [Str ''Cluster discovery processed with %d resources'', Num 3]])"
    by simp
  have keys: "set (Clusters (assignments c')) = {''a'', ''b''}"
    by (simp add: c' Clusters_def)
  have reqs: "sent s' =
        [\<lparr>Node = \<lparr>NodeId = ''test-id''\<rparr>, TypeUrl = cdsURL, ResourceNames = [''a'', ''b''],
          VersionInfo = ''1'', ResponseNonce = ''n1''\<rparr>,
         \<lparr>Node = \<lparr>NodeId = ''test-id''\<rparr>, TypeUrl = edsURL, ResourceNames = [''a'', ''b''],
          VersionInfo = [], ResponseNonce = []\<rparr>]"
    by (simp add: s')
  from alloc types eof fin body step keys reqs show ?thesis
    by blast
qed

text \<open>
  C6. For a Cluster-type response, the resources that decode to a Cluster (N of them) and
  those that do not (M of them) make up the response; the turn of the loop ends normally,
  the store then holds the names it held, with their assignments untouched, and the N
  decoded names, wherever the undecodable entries stand in the batch; when the N names are
  distinct and new, the store has grown by exactly N. The loop goes on from that state;
  when the next call of Recv fails, Receive returns that error together with the client
  whose store holds those names.
\<close>

theorem Receive_cds_skips_malformed:
  assumes "cla (assignments c) \<noteq> None"
    and "GetTypeUrl resp = cdsURL"
    and "incoming s = Inr resp ## rest"
  shows "\<exists>c' s' lg'.
           Receive_body unmarshalAny c (s\<lparr>incoming := rest\<rparr>) lg resp = Inr (c', s', lg') \<and>
           Receive unmarshalAny c s lg = Receive unmarshalAny c' s' lg' \<and>
           (\<forall>err. shd rest = Inl err \<longrightarrow>
              Receive unmarshalAny c s lg
                = Some (Returned err, c', s'\<lparr>incoming := stl rest\<rparr>, lg')) \<and>
           set (Clusters (assignments c')) =
             set (Clusters (assignments c)) \<union> set (unpacked_names unmarshalAny (GetResources resp)) \<and>
           (\<forall>k \<in> set (Clusters (assignments c)).
              entries (assignments c') k = entries (assignments c) k) \<and>
           length (unpacked_names unmarshalAny (GetResources resp)) +
             length (filter (\<lambda>r. unpacked_cluster unmarshalAny r = None) (GetResources resp))
             = length (GetResources resp) \<and>
           (distinct (unpacked_names unmarshalAny (GetResources resp)) \<and>
            set (unpacked_names unmarshalAny (GetResources resp)) \<inter> set (Clusters (assignments c)) = {}
            \<longrightarrow> length (Clusters (assignments c')) =
                  length (Clusters (assignments c)) +
                  length (unpacked_names unmarshalAny (GetResources resp)))"
proof -
  let ?names = "unpacked_names unmarshalAny (GetResources resp)"
  from assms(3) have hd: "shd (incoming s) = Inr resp" and tl: "stl (incoming s) = rest"
    by simp_all
  from Receive_body_cds_allocated [OF assms(1,2), of unmarshalAny "s\<lparr>incoming := rest\<rparr>" lg]
  obtain a s' lg' where a:
    "dom (entries a) = dom (entries (assignments c)) \<union> set ?names"
    "\<forall>k \<in> dom (entries (assignments c)). entries a k = entries (assignments c) k"
    and body: "Receive_body unmarshalAny c (s\<lparr>incoming := rest\<rparr>) lg resp
                 = Inr (c\<lparr>assignments := a\<rparr>, s', lg')"
    by blast
  from Receive_Recv_response [OF hd, of unmarshalAny c lg] body tl
  have step: "Receive unmarshalAny c s lg = Receive unmarshalAny (c\<lparr>assignments := a\<rparr>) s' lg'"
    by simp
  have run: "\<forall>err. shd rest = Inl err \<longrightarrow>
               Receive unmarshalAny c s lg
                 = Some (Returned err, c\<lparr>assignments := a\<rparr>, s'\<lparr>incoming := stl rest\<rparr>, lg')"
    using Receive_turn_then_error [OF assms(3) body] by blast
  have keys: "set (Clusters (assignments (c\<lparr>assignments := a\<rparr>))) =
               set (Clusters (assignments c)) \<union> set ?names"
    using a(1) by (simp add: set_Clusters)
  have kept: "\<forall>k \<in> set (Clusters (assignments c)).
               entries (assignments (c\<lparr>assignments := a\<rparr>)) k = entries (assignments c) k"
    using a(2) by (simp add: set_Clusters)
  have count: "length (Clusters (assignments (c\<lparr>assignments := a\<rparr>))) =
                 length (Clusters (assignments c)) + length ?names"
    if "distinct ?names" "set ?names \<inter> set (Clusters (assignments c)) = {}"
  proof -
    have "card (dom (entries a)) = card (dom (entries (assignments c))) + card (set ?names)"
      unfolding a(1) using that(2)
      by (intro card_Un_disjoint) (auto simp add: set_Clusters [symmetric])
    with that(1) show ?thesis
      by (simp add: length_Clusters distinct_card)
  qed
  from body step run keys kept count unpacked_split [of unmarshalAny "GetResources resp"]
  show ?thesis by blast
qed

lemma Receive_sconst_error:
  "Receive um c (s\<lparr>incoming := sconst (Inl err)\<rparr>) lg
     = Some (Returned err, c, s\<lparr>incoming := sconst (Inl err)\<rparr>, lg)"
  using Receive_Recv_error [of "s\<lparr>incoming := sconst (Inl err)\<rparr>" err um c lg]
  by simp

theorem Receive_cds_skips_malformed_witness:
  "cla (assignments example_client) \<noteq> None \<and>
   GetTypeUrl example_cds_response = cdsURL \<and>
   length (GetResources example_cds_response) = 3 \<and>
   unpacked_names example_unmarshalAny (GetResources example_cds_response) = [''a'', ''b''] \<and>
   filter (\<lambda>r. unpacked_cluster example_unmarshalAny r = None) (GetResources example_cds_response)
     = [Any cdsURL []] \<and>
   shd (sconst (Inl (Error ''EOF'')) :: (error + xdspb_DiscoveryResponse) stream)
     = Inl (Error ''EOF'') \<and>
   (\<exists>s' lg'.
      Receive example_unmarshalAny example_client
        (example_stream\<lparr>incoming := Inr example_cds_response ## sconst (Inl (Error ''EOF''))\<rparr>) []
        = Some (Returned (Error ''EOF''),
                example_client\<lparr>assignments := \<lparr>cla = Some [(''a'', None), (''b'', None)], version = 0\<rparr>\<rparr>,
                s', lg')) \<and>
   Clusters \<lparr>cla = Some [(''a'', None), (''b'', None)], version = 0\<rparr> = [''a'', ''b''] \<and>
   (\<exists>c' s' lg'.
      Receive_body example_unmarshalAny example_client example_stream [] example_cds_response
        = Inr (c', s', lg') \<and>
      Receive example_unmarshalAny example_client
        (example_stream\<lparr>incoming := Inr example_cds_response ## sconst (Inl (Error ''EOF''))\<rparr>) []
        = Receive example_unmarshalAny c' s' lg' \<and>
      Clusters (assignments c') = [''a'', ''b''])"
proof -
  have alloc: "cla (assignments example_client) \<noteq> None"
    by (simp add: example_client_def)
  have types: "GetTypeUrl example_cds_response = cdsURL"
    by (simp add: example_cds_response_def)
  have len: "length (GetResources example_cds_response) = 3"
    by (simp add: example_cds_response_def)
  have bad: "filter (\<lambda>r. unpacked_cluster example_unmarshalAny r = None)
               (GetResources example_cds_response) = [Any cdsURL []]"
    by (simp add: example_cds_response_def unpacked_cluster_def example_unmarshalAny_def
          cdsURL_neq_edsURL)
  have eof: "shd (sconst (Inl (Error ''EOF'')) :: (error + xdspb_DiscoveryResponse) stream)
               = Inl (Error ''EOF'')"
    by simp
  have script: "incoming (example_stream\<lparr>incoming := Inr example_cds_response ## sconst (Inl (Error ''EOF''))\<rparr>)
      = Inr example_cds_response ## sconst (Inl (Error ''EOF''))"
    by simp
  have same: "example_stream\<lparr>incoming := Inr example_cds_response ## sconst (Inl (Error ''EOF''))\<rparr>
       \<lparr>incoming := sconst (Inl (Error ''EOF''))\<rparr> = example_stream"
    by (simp add: example_stream_def)
  from Receive_cds_skips_malformed [OF alloc types script, of example_unmarshalAny "[]"]
  obtain c' s' lg' where
    body: "Receive_body example_unmarshalAny example_client example_stream [] example_cds_response
             = Inr (c', s', lg')"
    and step: "Receive example_unmarshalAny example_client
        (example_stream\<lparr>incoming := Inr example_cds_response ## sconst (Inl (Error ''EOF''))\<rparr>) []
        = Receive example_unmarshalAny c' s' lg'"
    and run: "\<forall>err. shd (sconst (Inl (Error ''EOF'')) :: (error + xdspb_DiscoveryResponse) stream) = Inl err \<longrightarrow>
        Receive example_unmarshalAny example_client
          (example_stream\<lparr>incoming := Inr example_cds_response ## sconst (Inl (Error ''EOF''))\<rparr>) []
          = Some (Returned err, c', s'\<lparr>incoming := stl (sconst (Inl (Error ''EOF'')))\<rparr>, lg')"
    unfolding same by blast
  from body have c': "c' = example_client\<lparr>assignments := \<lparr>cla = Some [(''a'', None), (''b'', None)], version = 0\<rparr>\<rparr>"
    by (simp add: example_Receive_body_cds)
  then have keys: "Clusters (assignments c') = [''a'', ''b'']"
    by (simp add: Clusters_def)
  have keys': "Clusters \<lparr>cla = Some [(''a'', None), (''b'', None)], version = 0\<rparr> = [''a'', ''b'']"
    by (simp add: Clusters_def)
  from run eof have "Receive example_unmarshalAny example_client
          (example_stream\<lparr>incoming := Inr example_cds_response ## sconst (Inl (Error ''EOF''))\<rparr>) []
          = Some (Returned (Error ''EOF''), c', s'\<lparr>incoming := stl (sconst (Inl (Error ''EOF'')))\<rparr>, lg')"
    by blast
  with c' have fin: "\<exists>s' lg'.
      Receive example_unmarshalAny example_client
        (example_stream\<lparr>incoming := Inr example_cds_response ## sconst (Inl (Error ''EOF''))\<rparr>) []
        = Some (Returned (Error ''EOF''),
                example_client\<lparr>assignments := \<lparr>cla = Some [(''a'', None), (''b'', None)], version = 0\<rparr>\<rparr>,
                s', lg')"
    by simp
  from alloc types len example_names1 bad eof fin keys' body step keys show ?thesis
    by blast
qed

text \<open>
  C7. A response whose type is neither the Cluster nor the Endpoint URL leaves the client
  and its store as they were, hands nothing to the stream (neither \<open>sent\<close> nor
  \<open>send_results\<close> changes), logs one warning, and the loop goes on with the rest of the
  stream.
\<close>

theorem Receive_unknown_type_dropped:
  assumes "GetTypeUrl resp \<noteq> cdsURL"
    and "GetTypeUrl resp \<noteq> edsURL"
    and "incoming s = Inr resp ## rest"
  shows "Receive_body unmarshalAny c (s\<lparr>incoming := rest\<rparr>) lg resp =
           Inr (c, s\<lparr>incoming := rest\<rparr>,
                lg @ [Warningf ''Unknown response URL for discovery: %q'' [Str (GetTypeUrl resp)]]) \<and>
         Receive unmarshalAny c s lg =
           Receive unmarshalAny c (s\<lparr>incoming := rest\<rparr>)
             (lg @ [Warningf ''Unknown response URL for discovery: %q'' [Str (GetTypeUrl resp)]])"
proof -
  from assms(3) have hd: "shd (incoming s) = Inr resp" and tl: "stl (incoming s) = rest"
    by simp_all
  note body = Receive_body_unknown [OF assms(1,2), of unmarshalAny c "s\<lparr>incoming := rest\<rparr>" lg]
  from Receive_Recv_response [OF hd, of unmarshalAny c lg] body tl
  show ?thesis by simp
qed

theorem Receive_unknown_type_dropped_witness:
  "GetTypeUrl example_lds_response \<noteq> cdsURL \<and>
   GetTypeUrl example_lds_response \<noteq> edsURL \<and>
   Receive example_unmarshalAny example_client
     (example_stream\<lparr>incoming := Inr example_lds_response ## sconst (Inl (Error ''EOF''))\<rparr>) []
   = Some (Returned (Error ''EOF''), example_client, example_stream,
           [Warningf ''Unknown response URL for discovery: %q''
              [Str ''type.googleapis.com/envoy.api.v2.Listener'']]) \<and>
   Clusters (assignments example_client) = [] \<and> sent example_stream = []"
proof -
  have t1: "GetTypeUrl example_lds_response \<noteq> cdsURL"
    by (simp add: example_lds_response_def cdsURL_def)
  have t2: "GetTypeUrl example_lds_response \<noteq> edsURL"
    by (simp add: example_lds_response_def edsURL_def)
  have script: "incoming (example_stream\<lparr>incoming := Inr example_lds_response ## sconst (Inl (Error ''EOF''))\<rparr>)
      = Inr example_lds_response ## sconst (Inl (Error ''EOF''))"
    by simp
  have same: "example_stream\<lparr>incoming := Inr example_lds_response ## sconst (Inl (Error ''EOF''))\<rparr>
       \<lparr>incoming := sconst (Inl (Error ''EOF''))\<rparr> = example_stream"
    by (simp add: example_stream_def)
  have url: "GetTypeUrl example_lds_response = ''type.googleapis.com/envoy.api.v2.Listener''"
    by (simp add: example_lds_response_def)
  have fin: "Receive example_unmarshalAny example_client example_stream
               [Warningf ''Unknown response URL for discovery: %q''
                  [Str ''type.googleapis.com/envoy.api.v2.Listener'']]
             = Some (Returned (Error ''EOF''), example_client, example_stream,
                     [Warningf ''Unknown response URL for discovery: %q''
                        [Str ''type.googleapis.com/envoy.api.v2.Listener'']])"
    using Receive_sconst_error [where s = example_stream and err = "Error ''EOF''"]
    by (simp add: example_stream_def)
  have empty: "Clusters (assignments example_client) = []" "sent example_stream = []"
    by (simp_all add: Clusters_def example_client_def example_stream_def)
  from Receive_unknown_type_dropped [OF t1 t2 script, of example_unmarshalAny example_client "[]"]
  have "Receive example_unmarshalAny example_client
     (example_stream\<lparr>incoming := Inr example_lds_response ## sconst (Inl (Error ''EOF''))\<rparr>) []
     = Receive example_unmarshalAny example_client example_stream
               [Warningf ''Unknown response URL for discovery: %q''
                  [Str ''type.googleapis.com/envoy.api.v2.Listener'']]"
    unfolding same url by simp
  with t1 t2 fin empty show ?thesis by simp
qed

text \<open>
  C9. Whatever the two calls of Send return for a Cluster-type response, the turn of the
  loop ends normally and the loop goes on with the rest of the stream; a failed Send leaves
  its warning in the log. When the next call of Recv then fails, it is that error the loop
  returns. And whenever Recv fails, the loop returns its error at once, with the client,
  the requests sent and the log as they were.
\<close>

theorem Receive_send_failure_continues_Recv_error_returns:
  "(cla (assignments c) \<noteq> None \<and> GetTypeUrl resp = cdsURL \<and> incoming s = Inr resp ## rest \<longrightarrow>
      (\<exists>c' s' lg'.
         Receive_body unmarshalAny c (s\<lparr>incoming := rest\<rparr>) lg resp = Inr (c', s', lg') \<and>
         Receive unmarshalAny c s lg = Receive unmarshalAny c' s' lg' \<and>
         incoming s' = rest \<and>
         (\<forall>e. shd (send_results s) = Some e \<longrightarrow>
              Warningf ''Failed to acknowledge cluster discovery: %s'' [Err e] \<in> set lg') \<and>
         (\<forall>e. shd (stl (send_results s)) = Some e \<longrightarrow>
              Warningf ''Failed to perform endpoint discovery: %s'' [Err e] \<in> set lg'))) \<and>
   (cla (assignments c) \<noteq> None \<and> GetTypeUrl resp = cdsURL \<and>
    incoming s = Inr resp ## Inl err ## rest \<longrightarrow>
      (\<exists>c' s' lg'. Receive unmarshalAny c s lg = Some (Returned err, c', s', lg'))) \<and>
   (shd (incoming s) = Inl err \<longrightarrow>
      Receive unmarshalAny c s lg = Some (Returned err, c, s\<lparr>incoming := stl (incoming s)\<rparr>, lg))"
proof (intro conjI impI)
  assume h: "cla (assignments c) \<noteq> None \<and> GetTypeUrl resp = cdsURL \<and> incoming s = Inr resp ## rest"
  then have alloc: "cla (assignments c) \<noteq> None" and cds: "GetTypeUrl resp = cdsURL"
    and hd: "shd (incoming s) = Inr resp" and tl: "stl (incoming s) = rest"
    by simp_all
  from Receive_body_cds_allocated [OF alloc cds, of unmarshalAny "s\<lparr>incoming := rest\<rparr>" lg]
  obtain a lg' where body:
    "Receive_body unmarshalAny c (s\<lparr>incoming := rest\<rparr>) lg resp =
        Inr (c\<lparr>assignments := a\<rparr>,
             s\<lparr>incoming := rest\<rparr>
              \<lparr>send_results := stl (stl (send_results (s\<lparr>incoming := rest\<rparr>))),
               sent := sent (s\<lparr>incoming := rest\<rparr>) @
                 [\<lparr>Node = node c, TypeUrl = cdsURL, ResourceNames = Clusters a,
                   VersionInfo = GetVersionInfo resp, ResponseNonce = GetNonce resp\<rparr>,
                  \<lparr>Node = node c, TypeUrl = edsURL, ResourceNames = Clusters a,
                   VersionInfo = [], ResponseNonce = []\<rparr>]\<rparr>,
             lg')"
    and w1: "\<forall>e. shd (send_results (s\<lparr>incoming := rest\<rparr>)) = Some e \<longrightarrow>
              Warningf ''Failed to acknowledge cluster discovery: %s'' [Err e] \<in> set lg'"
    and w2: "\<forall>e. shd (stl (send_results (s\<lparr>incoming := rest\<rparr>))) = Some e \<longrightarrow>
              Warningf ''Failed to perform endpoint discovery: %s'' [Err e] \<in> set lg'"
    by blast
  from Receive_Recv_response [OF hd, of unmarshalAny c lg] body tl
  have step: "Receive unmarshalAny c s lg =
      Receive unmarshalAny (c\<lparr>assignments := a\<rparr>)
        (s\<lparr>incoming := rest\<rparr>
              \<lparr>send_results := stl (stl (send_results (s\<lparr>incoming := rest\<rparr>))),
               sent := sent (s\<lparr>incoming := rest\<rparr>) @
                 [\<lparr>Node = node c, TypeUrl = cdsURL, ResourceNames = Clusters a,
                   VersionInfo = GetVersionInfo resp, ResponseNonce = GetNonce resp\<rparr>,
                  \<lparr>Node = node c, TypeUrl = edsURL, ResourceNames = Clusters a,
                   VersionInfo = [], ResponseNonce = []\<rparr>]\<rparr>) lg'"
    by simp
  from body step w1 w2
  show "\<exists>c' s' lg'.
         Receive_body unmarshalAny c (s\<lparr>incoming := rest\<rparr>) lg resp = Inr (c', s', lg') \<and>
         Receive unmarshalAny c s lg = Receive unmarshalAny c' s' lg' \<and>
         incoming s' = rest \<and>
         (\<forall>e. shd (send_results s) = Some e \<longrightarrow>
              Warningf ''Failed to acknowledge cluster discovery: %s'' [Err e] \<in> set lg') \<and>
         (\<forall>e. shd (stl (send_results s)) = Some e \<longrightarrow>
              Warningf ''Failed to perform endpoint discovery: %s'' [Err e] \<in> set lg')"
    by simp
next
  assume h: "cla (assignments c) \<noteq> None \<and> GetTypeUrl resp = cdsURL \<and>
             incoming s = Inr resp ## Inl err ## rest"
  then have alloc: "cla (assignments c) \<noteq> None"
    and cds: "\<forall>r \<in> set [resp]. GetTypeUrl r = cdsURL"
    and script: "incoming s = map Inr [resp] @- (Inl err ## rest)"
    by simp_all
  from Receive_cds_run [OF alloc cds script, of unmarshalAny lg]
  show "\<exists>c' s' lg'. Receive unmarshalAny c s lg = Some (Returned err, c', s', lg')"
    by blast
next
  assume "shd (incoming s) = Inl err"
  then show "Receive unmarshalAny c s lg
               = Some (Returned err, c, s\<lparr>incoming := stl (incoming s)\<rparr>, lg)"
    by (rule Receive_Recv_error)
qed

theorem Receive_send_failure_continues_Recv_error_returns_witness:
  "cla (assignments example_client) \<noteq> None \<and>
   GetTypeUrl example_cds_response = cdsURL \<and>
   shd (send_results example_broken_stream) = Some (Error ''broken pipe'') \<and>
   shd (stl (send_results example_broken_stream)) = Some (Error ''broken pipe'') \<and>
   incoming example_broken_stream = Inr example_cds_response ## Inl (Error ''EOF'') ## sconst (Inl (Error ''EOF'')) \<and>
   (\<exists>c' s' lg'.
      Receive example_unmarshalAny example_client example_broken_stream []
        = Some (Returned (Error ''EOF''), c', s', lg')) \<and>
   (\<exists>c' s' lg'.
      Receive_body example_unmarshalAny example_client
        (example_broken_stream\<lparr>incoming := sconst (Inl (Error ''EOF''))\<rparr>) [] example_cds_response
        = Inr (c', s', lg') \<and>
      Warningf ''Failed to acknowledge cluster discovery: %s'' [Err (Error ''broken pipe'')] \<in> set lg' \<and>
      Warningf ''Failed to perform endpoint discovery: %s'' [Err (Error ''broken pipe'')] \<in> set lg') \<and>
   shd (incoming example_stream) = Inl (Error ''EOF'') \<and>
   Receive example_unmarshalAny example_client example_stream []
     = Some (Returned (Error ''EOF''), example_client, example_stream, [])"
proof -
  have alloc: "cla (assignments example_client) \<noteq> None"
    by (simp add: example_client_def)
  have types: "GetTypeUrl example_cds_response = cdsURL"
    by (simp add: example_cds_response_def)
  have tail: "sconst (Inl (Error ''EOF'')) = Inl (Error ''EOF'') ## sconst (Inl (Error ''EOF''))"
    by (subst siterate.code) simp
  have script1: "incoming example_broken_stream
                   = Inr example_cds_response ## sconst (Inl (Error ''EOF''))"
    by (simp add: example_broken_stream_def)
  with tail have script2: "incoming example_broken_stream
                   = Inr example_cds_response ## Inl (Error ''EOF'') ## sconst (Inl (Error ''EOF''))"
    by simp
  have sends: "shd (send_results example_broken_stream) = Some (Error ''broken pipe'')"
    "shd (stl (send_results example_broken_stream)) = Some (Error ''broken pipe'')"
    by (simp_all add: example_broken_stream_def)
  have eof: "shd (incoming example_stream) = Inl (Error ''EOF'')"
    "example_stream\<lparr>incoming := stl (incoming example_stream)\<rparr> = example_stream"
    by (simp_all add: example_stream_def)
  note thm1 = Receive_send_failure_continues_Recv_error_returns
    [of example_client example_cds_response example_broken_stream
        "sconst (Inl (Error ''EOF''))" example_unmarshalAny "[]" "Error ''EOF''"]
  note thm2 = Receive_send_failure_continues_Recv_error_returns
    [of example_client example_cds_response example_stream
        "sconst (Inl (Error ''EOF''))" example_unmarshalAny "[]" "Error ''EOF''"]
  from thm1 alloc types script1 sends
  have part1: "\<exists>c' s' lg'.
      Receive_body example_unmarshalAny example_client
        (example_broken_stream\<lparr>incoming := sconst (Inl (Error ''EOF''))\<rparr>) [] example_cds_response
        = Inr (c', s', lg') \<and>
      Warningf ''Failed to acknowledge cluster discovery: %s'' [Err (Error ''broken pipe'')] \<in> set lg' \<and>
      Warningf ''Failed to perform endpoint discovery: %s'' [Err (Error ''broken pipe'')] \<in> set lg'"
    by blast
  from thm1 alloc types script2
  have part2: "\<exists>c' s' lg'.
      Receive example_unmarshalAny example_client example_broken_stream []
        = Some (Returned (Error ''EOF''), c', s', lg')"
    by blast
  from thm2 eof
  have part3: "Receive example_unmarshalAny example_client example_stream []
     = Some (Returned (Error ''EOF''), example_client, example_stream, [])"
    by simp
  from alloc types sends script2 part1 part2 part3 eof(1) show ?thesis
    by blast
qed

text \<open>
  C4. The claim asks that the assignments of an Endpoint-type response be stored and the
  response acknowledged. The Endpoint case of the source only prints: for a response that
  carries a decodable assignment for cluster a, the turn of the loop returns the client
  unchanged and the stream unchanged, so the store stays empty and no request is sent,
  up to the moment the loop returns.
\<close>

theorem Receive_eds_response_stores_nothing:
  "GetTypeUrl example_eds_response = edsURL \<and>
   map example_unmarshalAny (GetResources example_eds_response)
     = [Inr (ClusterLoadAssignmentMessage example_assignment)] \<and>
   Receive_body example_unmarshalAny example_client example_stream [] example_eds_response
     = Inr (example_client, example_stream, [Println [Str ''EDS'']]) \<and>
   Receive example_unmarshalAny example_client
     (example_stream\<lparr>incoming := Inr example_eds_response ## sconst (Inl (Error ''EOF''))\<rparr>) []
     = Some (Returned (Error ''EOF''), example_client, example_stream, [Println [Str ''EDS'']]) \<and>
   Clusters (assignments example_client) = [] \<and>
   sent example_stream = []"
proof -
  have types: "GetTypeUrl example_eds_response = edsURL"
    by (simp add: example_eds_response_def)
  have dec: "map example_unmarshalAny (GetResources example_eds_response)
     = [Inr (ClusterLoadAssignmentMessage example_assignment)]"
    using cdsURL_neq_edsURL
    by (auto simp add: example_eds_response_def example_unmarshalAny_def example_assignment_def)
  note body = Receive_body_eds [OF types, of example_unmarshalAny example_client example_stream "[]"]
  have hd: "shd (incoming (example_stream\<lparr>incoming := Inr example_eds_response ## sconst (Inl (Error ''EOF''))\<rparr>))
       = Inr example_eds_response"
    by simp
  have same: "example_stream\<lparr>incoming := Inr example_eds_response ## sconst (Inl (Error ''EOF''))\<rparr>
       \<lparr>incoming := stl (incoming (example_stream\<lparr>incoming := Inr example_eds_response ## sconst (Inl (Error ''EOF''))\<rparr>))\<rparr>
       = example_stream"
    by (simp add: example_stream_def)
  from body same have body': "Receive_body example_unmarshalAny example_client
      (example_stream\<lparr>incoming := Inr example_eds_response ## sconst (Inl (Error ''EOF''))\<rparr>
       \<lparr>incoming := stl (incoming (example_stream\<lparr>incoming := Inr example_eds_response ## sconst (Inl (Error ''EOF''))\<rparr>))\<rparr>)
      [] example_eds_response = Inr (example_client, example_stream, [] @ [Println [Str ''EDS'']])"
    by simp
  have fin: "Receive example_unmarshalAny example_client example_stream ([] @ [Println [Str ''EDS'']])
             = Some (Returned (Error ''EOF''), example_client, example_stream, [Println [Str ''EDS'']])"
    using Receive_sconst_error [where s = example_stream and err = "Error ''EOF''"]
    by (simp add: example_stream_def)
  have run: "Receive example_unmarshalAny example_client
     (example_stream\<lparr>incoming := Inr example_eds_response ## sconst (Inl (Error ''EOF''))\<rparr>) []
     = Some (Returned (Error ''EOF''), example_client, example_stream, [Println [Str ''EDS'']])"
    using Receive_Recv_response [OF hd body'] fin by simp
  have empty: "Clusters (assignments example_client) = []" "sent example_stream = []"
    by (simp_all add: Clusters_def example_client_def example_stream_def)
  from types dec body run empty show ?thesis by simp
qed

text \<open>No turn of the loop changes the node of the client.\<close>

lemma Receive_body_node:
  "Receive_body um c s lg resp = Inr (c', s', lg') \<Longrightarrow> node c' = node c"
  by (auto simp add: Receive_body_def Let_def split: if_splits sum.splits prod.splits)

text \<open>
  C8. The claim asks that requests carry the node identifier given to New. New drops its
  second argument and sets the identifier to the constant test-id: a client built for
  node-1 sends both kinds of request under test-id.
\<close>

theorem New_ignores_node_argument:
  "New example_dial ''127.0.0.1:18000'' ''node-1'' = Inr example_client \<and>
   NodeId (node example_client) = ''test-id'' \<and>
   sent (snd (ClusterDiscovery example_client example_stream [] [] []))
     = [\<lparr>Node = \<lparr>NodeId = ''test-id''\<rparr>, TypeUrl = cdsURL, ResourceNames = [],
         VersionInfo = [], ResponseNonce = []\<rparr>] \<and>
   sent (snd (EndpointDiscovery example_client example_stream [] [] [''a'']))
     = [\<lparr>Node = \<lparr>NodeId = ''test-id''\<rparr>, TypeUrl = edsURL, ResourceNames = [''a''],
         VersionInfo = [], ResponseNonce = []\<rparr>]"
  by (simp add: New_def example_dial_def example_client_def ClusterDiscovery_def
        EndpointDiscovery_def Send_def example_stream_def)

end
